theory Spec2Isabelle
  imports Main
begin

section \<open>Values shared by the three scripts\<close>

text \<open>
  The extension consists of a background service worker, a content script and two user
  interface pages. They share \<^verbatim>\<open>src/lib/storage.ts\<close> and \<^verbatim>\<open>src/lib/messaging.ts\<close>.
  TypeScript interfaces become records, string-literal unions become datatypes, and an
  \<^verbatim>\<open>async\<close> function becomes a function on the state of the browser that returns how its
  promise ends together with the state it leaves behind. Calls on the store are taken to
  complete, so the functions of \<^verbatim>\<open>storage.ts\<close> return their value, or the new state, directly.
\<close>

subsection \<open>Opaque values, thrown values, promises\<close>

text \<open>
  A value of TypeScript type \<^verbatim>\<open>unknown\<close> that crosses a message channel is JSON. Nothing
  computes with its numbers; they are kept as integers.
\<close>

datatype json =
    JNull
  | JBool bool
  | JNum int
  | JStr string
  | JArr "json list"
  | JObj "(string \<times> json) list"

text \<open>
  Anything can be thrown in JavaScript. The code only ever asks one question of a caught
  value: \<^verbatim>\<open>error instanceof Error\<close>, and if so reads \<^verbatim>\<open>error.message\<close>.
\<close>

datatype thrown =
    Error_instance string
  | Other_thrown json

text \<open>
  \<^verbatim>\<open>error instanceof Error ? error.message : "Unknown error"\<close>, which occurs in
  \<^verbatim>\<open>sendToBackground\<close>, \<^verbatim>\<open>sendToTab\<close> and \<^verbatim>\<open>createMessageHandler\<close>.
\<close>

fun error_text :: "thrown \<Rightarrow> string" where
  "error_text (Error_instance message) = message"
| "error_text (Other_thrown v) = ''Unknown error''"

text \<open>How a promise ends. A promise need not end at all: nothing in the code times out.\<close>

datatype 'a promise =
    Fulfilled 'a
  | Rejected thrown
  | Pending

text \<open>
  What calling a handler of type \<^verbatim>\<open>(payload, sender) => Promise<R> | R\<close> can do: hand back a
  plain value, hand back a promise, or throw before it returns anything. An \<^verbatim>\<open>async\<close>
  function always takes the second form.
\<close>

datatype 'a call_result =
    Returns_value 'a
  | Returns_promise "'a promise"
  | Throws thrown

subsection \<open>Messages and responses (\<^verbatim>\<open>messaging.ts\<close>, lines 6 to 49)\<close>

text \<open>\<^verbatim>\<open>interface Message { type; payload }\<close>\<close>

record ('t, 'p) message =
  type :: 't
  payload :: 'p

text \<open>
  \<^verbatim>\<open>interface MessageResponse { success: boolean; data?; error?: string }\<close>. An optional
  property that is left out is \<open>None\<close>.
\<close>

record 'd message_response =
  success :: bool
  data :: "'d option"
  error :: "string option"

section \<open>The message router: \<^verbatim>\<open>createMessageHandler\<close>\<close>

text \<open>
  \<^verbatim>\<open>createMessageHandler(handlers)\<close> installs one listener on
  \<^verbatim>\<open>chrome.runtime.onMessage\<close>. The definition below is that listener. A run of the listener
  is described by what the listener did synchronously (it returned \<^verbatim>\<open>true\<close> or \<^verbatim>\<open>false\<close>, or
  an exception escaped from it) and by the calls of \<^verbatim>\<open>sendResponse\<close> that it causes, in
  order. \<^verbatim>\<open>sendResponse\<close> itself is taken never to throw.
\<close>

datatype listener_exit =
    Returned bool
  | Escaped thrown

record 'd listener_run =
  exit :: listener_exit
  responses :: "'d message_response list"

text \<open>
  The handler table is \<^verbatim>\<open>Partial<{ [K in MessageType]: handler }>\<close>: a kind either has a
  handler registered or has none. A handler works on the state \<open>'w\<close> of the browser.
\<close>

type_synonym ('p, 's, 'w, 'd) handler = "'p \<Rightarrow> 's \<Rightarrow> 'w \<Rightarrow> 'd call_result \<times> 'w"

text \<open>
  The two callbacks of \<^verbatim>\<open>Promise.resolve(...).then(...).catch(...)\<close> (lines 135 to 144): the
  calls of \<^verbatim>\<open>sendResponse\<close> that a promise leads to.
\<close>

fun then_catch :: "'d promise \<Rightarrow> 'd message_response list" where
  "then_catch (Fulfilled v) = [\<lparr>success = True, data = Some v, error = None\<rparr>]"
| "then_catch (Rejected e) = [\<lparr>success = False, data = None, error = Some (error_text e)\<rparr>]"
| "then_catch Pending = []"

text \<open>
  \<^verbatim>\<open>handlers[type]\<close> (line 127) is a property read on the table object. It yields the handler
  registered under that name and, where there is none, the member that the object inherits
  under that name: every object inherits \<^verbatim>\<open>toString\<close>, \<^verbatim>\<open>constructor\<close> and a few more from
  \<^verbatim>\<open>Object.prototype\<close>. What is inherited belongs to JavaScript and not to the repository,
  so it is a parameter: \<open>inherited t\<close> is what the call \<^verbatim>\<open>handler(payload, sender)\<close> does when
  \<^verbatim>\<open>handler\<close> is the member inherited under the name \<open>t\<close>, and \<open>None\<close> when nothing is
  inherited under \<open>t\<close>. All inherited members count as true in \<^verbatim>\<open>if (handler)\<close>.
\<close>

definition property_read :: "('t \<Rightarrow> 'h option) \<Rightarrow> ('t \<Rightarrow> 'h option) \<Rightarrow> 't \<Rightarrow> 'h option" where
  "property_read inherited own t = (case own t of Some h \<Rightarrow> Some h | None \<Rightarrow> inherited t)"

text \<open>
  Lines 125 to 149. The handler is called before \<^verbatim>\<open>Promise.resolve\<close> sees its result, so
  an exception thrown by the call itself leaves the listener; \<^verbatim>\<open>Promise.resolve\<close> wraps a
  plain value and passes a promise through.
\<close>

definition createMessageHandler ::
  "('t \<Rightarrow> ('p, 's, 'w, 'd) handler option) \<Rightarrow> ('t \<Rightarrow> ('p, 's, 'w, 'd) handler option)
     \<Rightarrow> ('t, 'p) message \<Rightarrow> 's \<Rightarrow> 'w \<Rightarrow> 'd listener_run \<times> 'w" where
  "createMessageHandler inherited handlers message sender w =
     (case property_read inherited handlers (type message) of
        Some handler \<Rightarrow>
          (case handler (payload message) sender w of
             (Throws e, w') \<Rightarrow> (\<lparr>exit = Escaped e, responses = []\<rparr>, w')
           | (Returns_value v, w') \<Rightarrow>
               (\<lparr>exit = Returned True, responses = then_catch (Fulfilled v)\<rparr>, w')
           | (Returns_promise p, w') \<Rightarrow>
               (\<lparr>exit = Returned True, responses = then_catch p\<rparr>, w'))
      | None \<Rightarrow> (\<lparr>exit = Returned False, responses = []\<rparr>, w))"

section \<open>The settings store: \<^verbatim>\<open>storage.ts\<close>\<close>

subsection \<open>\<^verbatim>\<open>StorageSchema\<close>\<close>

datatype theme = Light | Dark | System

text \<open>
  A settings object as it exists at run time: each of the three properties is there or is
  not. This is \<^verbatim>\<open>Partial<StorageSchema["settings"]>\<close>, the payload type of
  \<^verbatim>\<open>UPDATE_SETTINGS\<close>. The type \<^verbatim>\<open>StorageSchema["settings"]\<close> itself asks for all three
  properties; \<open>is_Settings\<close> says so.
\<close>

record Settings =
  enabled :: "bool option"
  theme :: "theme option"
  notifications :: "bool option"

definition is_Settings :: "Settings \<Rightarrow> bool" where
  "is_Settings s = (enabled s \<noteq> None \<and> theme s \<noteq> None \<and> notifications s \<noteq> None)"

record UserData =
  lastVisit :: int
  visitCount :: int

text \<open>
  The contents of \<^verbatim>\<open>chrome.storage.local\<close>. The extension uses the two keys of
  \<^verbatim>\<open>StorageSchema\<close> and no other, so the contents have the type that \<^verbatim>\<open>getAllStorage\<close>
  declares, \<^verbatim>\<open>Partial<StorageSchema>\<close>: each key holds a value or is absent.
\<close>

record StorageSchema =
  settings :: "Settings option"
  userData :: "UserData option"

datatype StorageKey = Key_settings | Key_userData

subsection \<open>The browser\<close>

text \<open>\<^verbatim>\<open>chrome.tabs.Tab\<close>, as far as the code reads it. \<^verbatim>\<open>id\<close>, \<^verbatim>\<open>url\<close> and \<^verbatim>\<open>title\<close> are optional.\<close>

record Tab =
  tab_id :: "int option"
  url :: "string option"
  title :: "string option"

text \<open>\<^verbatim>\<open>chrome.runtime.MessageSender\<close>; \<^verbatim>\<open>tab\<close> is optional.\<close>

record MessageSender =
  tab :: "Tab option"

text \<open>
  The keys of \<^verbatim>\<open>MessageTypes\<close>, and the one further tag that the background script puts on
  the wire without declaring it there.
\<close>

datatype MessageType =
    GET_TAB_INFO
  | TOGGLE_EXTENSION
  | GET_SETTINGS
  | UPDATE_SETTINGS
  | CONTENT_ACTION
  | EXTENSION_STATE_CHANGED

text \<open>
  The request shapes of \<^verbatim>\<open>MessageTypes\<close>: \<^verbatim>\<open>void\<close>, \<^verbatim>\<open>{ enabled }\<close>, a partial settings object,
  \<^verbatim>\<open>{ action, data? }\<close>. The response shapes: \<^verbatim>\<open>{ url, title }\<close>, \<^verbatim>\<open>{ success }\<close>, a settings
  object, \<^verbatim>\<open>{ success, result? }\<close>; a content script may answer with any JSON value.
\<close>

datatype Request =
    Void
  | Enabled_request bool
  | Settings_request Settings
  | Action_request string "json option"

datatype Response =
    Tab_info string string
  | Success_flag bool
  | Settings_data Settings
  | Action_result bool "json option"
  | Json_data json

type_synonym wire_message = "(MessageType, Request) message"

type_synonym wire_response = "Response message_response"

text \<open>
  The state of the browser that the code can read or change.
  \<^item> \<open>storage\<close>: the contents of \<^verbatim>\<open>chrome.storage.local\<close>. Every call on it is taken to
    complete; the repository has no code for a store that fails.
  \<^item> \<open>clock\<close>: what \<^verbatim>\<open>Date.now()\<close> returns.
  \<^item> \<open>all_tabs\<close>: the answer to \<^verbatim>\<open>chrome.tabs.query({})\<close>.
  \<^item> \<open>active_tabs\<close>: the answer to \<^verbatim>\<open>chrome.tabs.query({ active: true, currentWindow: true })\<close>.
    Both queries are taken to be answered.
  \<^item> \<open>receiver\<close>: how \<^verbatim>\<open>chrome.tabs.sendMessage(tabId, message)\<close> ends: with the answer of the
    tab's content script, or with a rejection, as when nothing listens there. The call is
    taken to end one way or the other; the content script of this extension answers every
    message before its listener returns (\<^verbatim>\<open>content/index.ts\<close>, lines 14 to 40).
  \<^item> \<open>outbox\<close>: every call of \<^verbatim>\<open>chrome.tabs.sendMessage\<close> made so far, oldest first.
\<close>

record world =
  storage :: StorageSchema
  clock :: int
  all_tabs :: "Tab list"
  active_tabs :: "Tab list"
  receiver :: "int \<Rightarrow> wire_message \<Rightarrow> thrown + wire_response"
  outbox :: "(int \<times> wire_message) list"

definition chrome_tabs_sendMessage ::
  "int \<Rightarrow> wire_message \<Rightarrow> world \<Rightarrow> (thrown + wire_response) \<times> world" where
  "chrome_tabs_sendMessage tabId message w =
     (receiver w tabId message, w\<lparr>outbox := outbox w @ [(tabId, message)]\<rparr>)"

subsection \<open>The functions of \<^verbatim>\<open>storage.ts\<close>\<close>

text \<open>
  \<^verbatim>\<open>getStorage\<close> and \<^verbatim>\<open>setStorage\<close> are generic in the key; the two instances are written
  out. \<^verbatim>\<open>set\<close> replaces the value under the key as a whole.
\<close>

definition getStorage_settings :: "world \<Rightarrow> Settings option" where
  "getStorage_settings w = settings (storage w)"

definition getStorage_userData :: "world \<Rightarrow> UserData option" where
  "getStorage_userData w = userData (storage w)"

definition setStorage_settings :: "Settings \<Rightarrow> world \<Rightarrow> world" where
  "setStorage_settings v w = w\<lparr>storage := (storage w)\<lparr>settings := Some v\<rparr>\<rparr>"

definition setStorage_userData :: "UserData \<Rightarrow> world \<Rightarrow> world" where
  "setStorage_userData v w = w\<lparr>storage := (storage w)\<lparr>userData := Some v\<rparr>\<rparr>"

fun removeStorage :: "StorageKey \<Rightarrow> world \<Rightarrow> world" where
  "removeStorage Key_settings w = w\<lparr>storage := (storage w)\<lparr>settings := None\<rparr>\<rparr>"
| "removeStorage Key_userData w = w\<lparr>storage := (storage w)\<lparr>userData := None\<rparr>\<rparr>"

definition getAllStorage :: "world \<Rightarrow> StorageSchema" where
  "getAllStorage w = storage w"

definition clearStorage :: "world \<Rightarrow> world" where
  "clearStorage w = w\<lparr>storage := \<lparr>settings = None, userData = None\<rparr>\<rparr>"

definition defaultSettings :: Settings where
  "defaultSettings = \<lparr>enabled = Some True, theme = Some System, notifications = Some True\<rparr>"

text \<open>
  Lines 89 to 102. \<^verbatim>\<open>!settings\<close> asks whether the value is falsy; an object never is, so
  the test is true exactly when the key is absent.
\<close>

definition initializeStorage :: "world \<Rightarrow> world" where
  "initializeStorage w =
     (let w1 = (case getStorage_settings w of
                  None \<Rightarrow> setStorage_settings defaultSettings w
                | Some s \<Rightarrow> w)
      in case getStorage_userData w1 of
           None \<Rightarrow> setStorage_userData \<lparr>lastVisit = clock w1, visitCount = 0\<rparr> w1
         | Some u \<Rightarrow> w1)"

section \<open>The channel adapters of \<^verbatim>\<open>messaging.ts\<close>\<close>

text \<open>Lines 78 to 98: \<^verbatim>\<open>try { return await chrome.tabs.sendMessage(...) } catch ...\<close>\<close>

definition sendToTab ::
  "int \<Rightarrow> MessageType \<Rightarrow> Request \<Rightarrow> world \<Rightarrow> wire_response promise \<times> world" where
  "sendToTab tabId t p w =
     (case chrome_tabs_sendMessage tabId \<lparr>type = t, payload = p\<rparr> w of
        (Inr response, w') \<Rightarrow> (Fulfilled response, w')
      | (Inl e, w') \<Rightarrow>
          (Fulfilled \<lparr>success = False, data = None, error = Some (error_text e)\<rparr>, w'))"

text \<open>
  Lines 103 to 112. \<^verbatim>\<open>const [tab] = ...\<close> takes the first tab of the answer, if there is
  one. \<^verbatim>\<open>!tab?.id\<close> is true when there is no tab, when the tab has no \<^verbatim>\<open>id\<close>, and when the
  \<^verbatim>\<open>id\<close> is the number 0, which JavaScript counts as false.
\<close>

definition sendToActiveTab ::
  "MessageType \<Rightarrow> Request \<Rightarrow> world \<Rightarrow> wire_response promise \<times> world" where
  "sendToActiveTab t p w =
     (case active_tabs w of
        [] \<Rightarrow> (Fulfilled \<lparr>success = False, data = None, error = Some ''No active tab found''\<rparr>, w)
      | first # rest \<Rightarrow>
          (case tab_id first of
             None \<Rightarrow>
               (Fulfilled \<lparr>success = False, data = None, error = Some ''No active tab found''\<rparr>, w)
           | Some i \<Rightarrow>
               if i = 0
               then (Fulfilled \<lparr>success = False, data = None,
                                 error = Some ''No active tab found''\<rparr>, w)
               else sendToTab i t p w))"

section \<open>The background script: \<^verbatim>\<open>background/index.ts\<close>\<close>

subsection \<open>The handlers\<close>

text \<open>
  The object spread \<^verbatim>\<open>{ ...a, ...b }\<close> on settings objects: a property of \<^verbatim>\<open>b\<close> wins, a
  property that \<^verbatim>\<open>b\<close> lacks is taken from \<^verbatim>\<open>a\<close>.
\<close>

definition spread :: "Settings \<Rightarrow> Settings \<Rightarrow> Settings" where
  "spread a b =
     \<lparr>enabled = (case enabled b of Some v \<Rightarrow> Some v | None \<Rightarrow> enabled a),
      theme = (case theme b of Some v \<Rightarrow> Some v | None \<Rightarrow> theme a),
      notifications = (case notifications b of Some v \<Rightarrow> Some v | None \<Rightarrow> notifications a)\<rparr>"

text \<open>\<^verbatim>\<open>(await getStorage("settings")) ?? defaultSettings\<close>\<close>

definition currentSettings :: "world \<Rightarrow> Settings" where
  "currentSettings w = (case getStorage_settings w of Some s \<Rightarrow> s | None \<Rightarrow> defaultSettings)"

text \<open>Lines 46 to 52: \<^verbatim>\<open>{ url: tab?.url ?? "", title: tab?.title ?? "" }\<close>\<close>

definition GET_TAB_INFO_handler :: "MessageSender \<Rightarrow> world \<Rightarrow> Response call_result \<times> world" where
  "GET_TAB_INFO_handler sender w =
     (Returns_promise (Fulfilled (Tab_info
        (case tab sender of None \<Rightarrow> '''' | Some t \<Rightarrow> (case url t of None \<Rightarrow> '''' | Some u \<Rightarrow> u))
        (case tab sender of None \<Rightarrow> '''' | Some t \<Rightarrow> (case title t of None \<Rightarrow> '''' | Some u \<Rightarrow> u)))),
      w)"

text \<open>Lines 54 to 57.\<close>

definition GET_SETTINGS_handler :: "world \<Rightarrow> Response call_result \<times> world" where
  "GET_SETTINGS_handler w = (Returns_promise (Fulfilled (Settings_data (currentSettings w))), w)"

text \<open>
  The handlers get the payload as it arrived. TypeScript gives each handler the request
  shape of its own message type, but the router passes the payload on unchecked, so what a
  handler does is fixed by the properties it reads. A payload is \<^verbatim>\<open>undefined\<close> or an object;
  reading a property of \<^verbatim>\<open>undefined\<close> throws a \<^verbatim>\<open>TypeError\<close>, reading a property that an object
  lacks gives \<^verbatim>\<open>undefined\<close>.
\<close>

fun read_enabled :: "Request \<Rightarrow> thrown + bool option" where
  "read_enabled Void =
     Inl (Error_instance ''Cannot read properties of undefined (reading 'enabled')'')"
| "read_enabled (Enabled_request b) = Inr (Some b)"
| "read_enabled (Settings_request s) = Inr (enabled s)"
| "read_enabled (Action_request a d) = Inr None"

fun read_data :: "Request \<Rightarrow> thrown + json option" where
  "read_data Void =
     Inl (Error_instance ''Cannot read properties of undefined (reading 'data')'')"
| "read_data (Enabled_request b) = Inr None"
| "read_data (Settings_request s) = Inr None"
| "read_data (Action_request a d) = Inr d"

text \<open>
  What \<^verbatim>\<open>...payload\<close> contributes to a settings object: the settings properties that the
  payload has. Spreading \<^verbatim>\<open>undefined\<close> contributes nothing. (The properties \<^verbatim>\<open>action\<close> and
  \<^verbatim>\<open>data\<close> of a content action would be copied as well; a settings record here keeps track
  of the three declared properties only.)
\<close>

fun settings_properties :: "Request \<Rightarrow> Settings" where
  "settings_properties Void = \<lparr>enabled = None, theme = None, notifications = None\<rparr>"
| "settings_properties (Enabled_request b) =
     \<lparr>enabled = Some b, theme = None, notifications = None\<rparr>"
| "settings_properties (Settings_request s) = s"
| "settings_properties (Action_request a d) =
     \<lparr>enabled = None, theme = None, notifications = None\<rparr>"

text \<open>
  The object \<^verbatim>\<open>{ enabled: payload.enabled }\<close> as it goes over the wire. Messages and stored
  values are serialised like JSON, which leaves out a property whose value is \<^verbatim>\<open>undefined\<close>:
  such a property is neither transmitted nor stored.
\<close>

fun enabled_object :: "bool option \<Rightarrow> Request" where
  "enabled_object (Some b) = Enabled_request b"
| "enabled_object None = Settings_request \<lparr>enabled = None, theme = None, notifications = None\<rparr>"

text \<open>Lines 59 to 64.\<close>

definition UPDATE_SETTINGS_handler :: "Request \<Rightarrow> world \<Rightarrow> Response call_result \<times> world" where
  "UPDATE_SETTINGS_handler p w =
     (let newSettings = spread (currentSettings w) (settings_properties p)
      in (Returns_promise (Fulfilled (Success_flag True)), setStorage_settings newSettings w))"

text \<open>
  Lines 71 to 83: the loop over the tabs, sending the notification with payload \<open>p\<close>.
  \<^verbatim>\<open>if (tab.id)\<close> passes over a tab without \<^verbatim>\<open>id\<close> and a tab whose \<^verbatim>\<open>id\<close> is 0. The \<^verbatim>\<open>try\<close> with
  its empty \<^verbatim>\<open>catch\<close> goes on to the next tab whether the message was answered or rejected.
\<close>

fun notify_tabs :: "Request \<Rightarrow> Tab list \<Rightarrow> world \<Rightarrow> world" where
  "notify_tabs p [] w = w"
| "notify_tabs p (t # ts) w =
     notify_tabs p ts
       (case tab_id t of
          None \<Rightarrow> w
        | Some i \<Rightarrow>
            if i = 0 then w
            else (case chrome_tabs_sendMessage i
                         \<lparr>type = EXTENSION_STATE_CHANGED, payload = p\<rparr> w of
                    (Inr response, w') \<Rightarrow> w'
                  | (Inl e, w') \<Rightarrow> w'))"

text \<open>
  Lines 66 to 86. \<^verbatim>\<open>payload.enabled\<close> is first read when the new settings object is built,
  after the store was read and before anything is written. The tabs are queried after the
  write.
\<close>

definition TOGGLE_EXTENSION_handler :: "Request \<Rightarrow> world \<Rightarrow> Response call_result \<times> world" where
  "TOGGLE_EXTENSION_handler p w =
     (case read_enabled p of
        Inl e \<Rightarrow> (Returns_promise (Rejected e), w)
      | Inr en \<Rightarrow>
          (let w1 = setStorage_settings ((currentSettings w)\<lparr>enabled := en\<rparr>) w;
               tabs = all_tabs w1
           in (Returns_promise (Fulfilled (Success_flag True)),
               notify_tabs (enabled_object en) tabs w1)))"

text \<open>Lines 88 to 91 (the call of \<^verbatim>\<open>console.log\<close> is left out).\<close>

definition CONTENT_ACTION_handler :: "Request \<Rightarrow> world \<Rightarrow> Response call_result \<times> world" where
  "CONTENT_ACTION_handler p w =
     (case read_data p of
        Inl e \<Rightarrow> (Returns_promise (Rejected e), w)
      | Inr d \<Rightarrow> (Returns_promise (Fulfilled (Action_result True d)), w))"

subsection \<open>The handler table\<close>

text \<open>The object literal of lines 45 to 92. It registers no handler for the sixth tag.\<close>

fun background_handlers ::
  "MessageType \<Rightarrow> (Request, MessageSender, world, Response) handler option" where
  "background_handlers GET_TAB_INFO = Some (\<lambda>p sender w. GET_TAB_INFO_handler sender w)"
| "background_handlers GET_SETTINGS = Some (\<lambda>p sender w. GET_SETTINGS_handler w)"
| "background_handlers UPDATE_SETTINGS =
     Some (\<lambda>p sender w. UPDATE_SETTINGS_handler p w)"
| "background_handlers TOGGLE_EXTENSION =
     Some (\<lambda>p sender w. TOGGLE_EXTENSION_handler p w)"
| "background_handlers CONTENT_ACTION =
     Some (\<lambda>p sender w. CONTENT_ACTION_handler p w)"
| "background_handlers EXTENSION_STATE_CHANGED = None"

text \<open>
  None of the six tags is the name of a member of \<^verbatim>\<open>Object.prototype\<close>, so the table
  inherits nothing under them.
\<close>

definition inherited_under_tag ::
  "MessageType \<Rightarrow> (Request, MessageSender, world, Response) handler option" where
  "inherited_under_tag t = None"

text \<open>The listener that the background script installs.\<close>

definition background_onMessage ::
  "wire_message \<Rightarrow> MessageSender \<Rightarrow> world \<Rightarrow> Response listener_run \<times> world" where
  "background_onMessage = createMessageHandler inherited_under_tag background_handlers"

subsection \<open>Life cycle\<close>

datatype OnInstalledReason = INSTALL | UPDATE | CHROME_UPDATE | SHARED_MODULE_UPDATE

text \<open>
  Lines 17 to 36 and 39 to 42. An update only writes to the console. The second
  \<^verbatim>\<open>onInstalled\<close> listener creates a context menu entry, which is not part of the state here.
\<close>

fun onInstalled :: "OnInstalledReason \<Rightarrow> world \<Rightarrow> world" where
  "onInstalled INSTALL w = initializeStorage w"
| "onInstalled reason w = w"

definition onStartup :: "world \<Rightarrow> world" where
  "onStartup w = initializeStorage w"

section \<open>Everything that can change the store\<close>

text \<open>
  The persisted settings record is in order when it is absent or has all three properties.
\<close>

definition settings_record_ok :: "world \<Rightarrow> bool" where
  "settings_record_ok w = (case settings (storage w) of None \<Rightarrow> True | Some s \<Rightarrow> is_Settings s)"

text \<open>
  The events that reach the code: a message arriving at the background listener (the popup,
  the options page and the content script change settings in no other way), the two life
  cycle events, the three remaining listeners of the background script, and a direct call of
  one of the writing functions that \<^verbatim>\<open>storage.ts\<close> exports (the options page calls
  \<^verbatim>\<open>clearStorage\<close> when the user resets the settings).
\<close>

datatype operation =
    Message_arrives wire_message MessageSender
  | Installed OnInstalledReason
  | Browser_starts
  | Tab_updated
  | Icon_clicked
  | Context_menu_clicked
  | Call_setStorage_settings Settings
  | Call_setStorage_userData UserData
  | Call_removeStorage StorageKey
  | Call_clearStorage

text \<open>
  The listeners on \<^verbatim>\<open>tabs.onUpdated\<close>, \<^verbatim>\<open>action.onClicked\<close> and \<^verbatim>\<open>contextMenus.onClicked\<close> (lines
  95 to 125) read the settings at most and write to the console only.
\<close>

fun perform :: "operation \<Rightarrow> world \<Rightarrow> world" where
  "perform (Message_arrives m sender) w = snd (background_onMessage m sender w)"
| "perform (Installed reason) w = onInstalled reason w"
| "perform Browser_starts w = onStartup w"
| "perform Tab_updated w = w"
| "perform Icon_clicked w = w"
| "perform Context_menu_clicked w = w"
| "perform (Call_setStorage_settings v) w = setStorage_settings v w"
| "perform (Call_setStorage_userData v) w = setStorage_userData v w"
| "perform (Call_removeStorage k) w = removeStorage k w"
| "perform Call_clearStorage w = clearStorage w"

text \<open>
  What the TypeScript compiler lets through. A message pairs its type with the request
  shape that \<^verbatim>\<open>MessageTypes\<close> gives it (the undeclared \<^verbatim>\<open>EXTENSION_STATE_CHANGED\<close> is always sent
  with \<^verbatim>\<open>{ enabled }\<close>), and \<^verbatim>\<open>setStorage("settings", value)\<close> takes a \<^verbatim>\<open>value\<close> that has all three
  properties.
\<close>

definition request_matches :: "MessageType \<Rightarrow> Request \<Rightarrow> bool" where
  "request_matches t p =
     (case (t, p) of
        (GET_TAB_INFO, Void) \<Rightarrow> True
      | (TOGGLE_EXTENSION, Enabled_request b) \<Rightarrow> True
      | (GET_SETTINGS, Void) \<Rightarrow> True
      | (UPDATE_SETTINGS, Settings_request r) \<Rightarrow> True
      | (CONTENT_ACTION, Action_request a d) \<Rightarrow> True
      | (EXTENSION_STATE_CHANGED, Enabled_request b) \<Rightarrow> True
      | _ \<Rightarrow> False)"

fun well_typed :: "operation \<Rightarrow> bool" where
  "well_typed (Message_arrives m sender) = request_matches (type m) (payload m)"
| "well_typed (Call_setStorage_settings v) = is_Settings v"
| "well_typed other = True"

section \<open>Two browsers to compute with\<close>

text \<open>The rejection of \<^verbatim>\<open>chrome.tabs.sendMessage\<close> when the tab has no content script.\<close>

definition no_listener :: thrown where
  "no_listener = Error_instance ''Could not establish connection. Receiving end does not exist.''"

text \<open>A browser right after the extension was loaded: nothing stored, no tab open.\<close>

definition fresh_browser :: world where
  "fresh_browser =
     \<lparr>storage = \<lparr>settings = None, userData = None\<rparr>, clock = 0, all_tabs = [], active_tabs = [],
      receiver = (\<lambda>i m. Inl no_listener), outbox = []\<rparr>"

text \<open>
  A browser in use: settings stored, three tabs. Tab 8 shows a privileged page and has no
  content script, the second tab has no \<^verbatim>\<open>id\<close>, tab 7 is the active one and answers.
\<close>

definition example_browser :: world where
  "example_browser =
     \<lparr>storage =
        \<lparr>settings = Some \<lparr>enabled = Some True, theme = Some Light, notifications = Some False\<rparr>,
         userData = Some \<lparr>lastVisit = 1000, visitCount = 3\<rparr>\<rparr>,
      clock = 2000,
      all_tabs =
        [\<lparr>tab_id = Some 8, url = Some ''chrome://extensions/'', title = Some ''Extensions''\<rparr>,
         \<lparr>tab_id = None, url = None, title = None\<rparr>,
         \<lparr>tab_id = Some 7, url = Some ''https://example.org/'', title = Some ''Example''\<rparr>],
      active_tabs =
        [\<lparr>tab_id = Some 7, url = Some ''https://example.org/'', title = Some ''Example''\<rparr>],
      receiver = (\<lambda>i m. if i = 7 then Inr \<lparr>success = True, data = None, error = None\<rparr>
                          else Inl no_listener),
      outbox = []\<rparr>"

section \<open>Facts used more than once\<close>

lemma then_catch_at_most_one: "length (then_catch q) \<le> Suc 0"
  by (cases q) simp_all

lemma is_Settings_default: "is_Settings defaultSettings"
  by (simp add: is_Settings_def defaultSettings_def)

lemma is_Settings_spread: "is_Settings a \<Longrightarrow> is_Settings (spread a b)"
  by (auto simp add: is_Settings_def spread_def split: option.splits)

lemma is_Settings_current: "settings_record_ok w \<Longrightarrow> is_Settings (currentSettings w)"
  by (auto simp add: settings_record_ok_def currentSettings_def getStorage_settings_def
      is_Settings_default split: option.splits)

lemma currentSettings_setStorage_settings: "currentSettings (setStorage_settings v w) = v"
  by (simp add: currentSettings_def getStorage_settings_def setStorage_settings_def)

lemma storage_setStorage_settings:
  "settings (storage (setStorage_settings v w)) = Some v"
  "userData (storage (setStorage_settings v w)) = userData (storage w)"
  by (simp_all add: setStorage_settings_def)

text \<open>The loop over the tabs leaves the store alone and appends to the outbox.\<close>

lemma storage_notify_tabs: "storage (notify_tabs p ts w) = storage w"
proof (induction ts arbitrary: w)
  case Nil
  show ?case by simp
next
  case (Cons t ts)
  show ?case
    by (simp add: Cons.IH chrome_tabs_sendMessage_def split: option.splits prod.splits sum.splits)
qed





text \<open>What the background listener does with three of its message types.\<close>

lemma background_GET_SETTINGS:
  "background_onMessage \<lparr>type = GET_SETTINGS, payload = p\<rparr> sender w =
     (\<lparr>exit = Returned True,
       responses = [\<lparr>success = True, data = Some (Settings_data (currentSettings w)),
                     error = None\<rparr>]\<rparr>, w)"
  by (simp add: background_onMessage_def createMessageHandler_def property_read_def
      GET_SETTINGS_handler_def)

lemma background_UPDATE_SETTINGS:
  "background_onMessage \<lparr>type = UPDATE_SETTINGS, payload = Settings_request p\<rparr> sender w =
     (\<lparr>exit = Returned True,
       responses = [\<lparr>success = True, data = Some (Success_flag True), error = None\<rparr>]\<rparr>,
      setStorage_settings (spread (currentSettings w) p) w)"
  by (simp add: background_onMessage_def createMessageHandler_def property_read_def
      UPDATE_SETTINGS_handler_def Let_def)

lemma background_TOGGLE_EXTENSION:
  "background_onMessage \<lparr>type = TOGGLE_EXTENSION, payload = Enabled_request b\<rparr> sender w =
     (\<lparr>exit = Returned True,
       responses = [\<lparr>success = True, data = Some (Success_flag True), error = None\<rparr>]\<rparr>,
      notify_tabs (Enabled_request b) (all_tabs w)
        (setStorage_settings ((currentSettings w)\<lparr>enabled := Some b\<rparr>) w))"
  by (simp add: background_onMessage_def createMessageHandler_def property_read_def
      TOGGLE_EXTENSION_handler_def Let_def setStorage_settings_def)

section \<open>The router\<close>

text \<open>
  Claim C1, as the code has it. When the type of an inbound message has no handler in the
  table given to \<^verbatim>\<open>createMessageHandler\<close> and is not the name of a member that the table
  inherits, the listener calls no handler (the browser is left as it was), does not call
  \<^verbatim>\<open>sendResponse\<close> at all, and returns \<^verbatim>\<open>false\<close>, which tells the browser that this listener
  will not answer. No response with the text \<^verbatim>\<open>"Unknown message type"\<close> comes from the router.
\<close>

theorem createMessageHandler_unregistered:
  "handlers (type m) = None \<Longrightarrow> inherited (type m) = None \<Longrightarrow>
   createMessageHandler inherited handlers m sender w =
     (\<lparr>exit = Returned False, responses = []\<rparr>, w)"
  by (simp add: createMessageHandler_def property_read_def)

text \<open>
  The background table and the tag it has no handler for; and a table keyed by strings
  that inherits \<^verbatim>\<open>toString\<close>, asked for a name that is neither registered nor inherited.
\<close>

theorem createMessageHandler_unregistered_witness:
  "background_handlers (type \<lparr>type = EXTENSION_STATE_CHANGED, payload = Enabled_request False\<rparr>)
     = None
   \<and> inherited_under_tag (type \<lparr>type = EXTENSION_STATE_CHANGED, payload = Enabled_request False\<rparr>)
     = None
   \<and> createMessageHandler inherited_under_tag background_handlers
       \<lparr>type = EXTENSION_STATE_CHANGED, payload = Enabled_request False\<rparr> \<lparr>tab = None\<rparr>
       example_browser
     = (\<lparr>exit = Returned False, responses = []\<rparr>, example_browser)
   \<and> createMessageHandler
       (\<lambda>name. if name = ''toString''
          then Some (\<lambda>p sender w.
                 (Returns_value (Json_data (JStr ''[object Undefined]'')), w))
          else None)
       (\<lambda>name. if name = ''GET_SETTINGS''
          then Some (\<lambda>p sender w. GET_SETTINGS_handler w)
          else None)
       \<lparr>type = ''PING'', payload = Void\<rparr> \<lparr>tab = None\<rparr> example_browser
     = (\<lparr>exit = Returned False, responses = []\<rparr>, example_browser)"
proof -
  have first: "createMessageHandler inherited_under_tag background_handlers
       \<lparr>type = EXTENSION_STATE_CHANGED, payload = Enabled_request False\<rparr> \<lparr>tab = None\<rparr>
       example_browser
     = (\<lparr>exit = Returned False, responses = []\<rparr>, example_browser)"
    using createMessageHandler_unregistered
      [where handlers = background_handlers and inherited = inherited_under_tag
         and m = "\<lparr>type = EXTENSION_STATE_CHANGED, payload = Enabled_request False\<rparr>"
         and sender = "\<lparr>tab = None\<rparr>" and w = example_browser]
    by (simp add: inherited_under_tag_def)
  have second: "createMessageHandler
       (\<lambda>name. if name = ''toString''
          then Some (\<lambda>p sender w.
                 (Returns_value (Json_data (JStr ''[object Undefined]'')), w))
          else None)
       (\<lambda>name. if name = ''GET_SETTINGS''
          then Some (\<lambda>p sender w. GET_SETTINGS_handler w)
          else None)
       \<lparr>type = ''PING'', payload = Void\<rparr> \<lparr>tab = None\<rparr> example_browser
     = (\<lparr>exit = Returned False, responses = []\<rparr>, example_browser)"
    using createMessageHandler_unregistered
      [where handlers = "\<lambda>name. if name = ''GET_SETTINGS''
          then Some (\<lambda>p sender w. GET_SETTINGS_handler w)
          else None"
         and inherited = "\<lambda>name. if name = ''toString''
          then Some (\<lambda>p sender w.
                 (Returns_value (Json_data (JStr ''[object Undefined]'')), w))
          else None"
         and m = "\<lparr>type = ''PING'', payload = Void\<rparr>"
         and sender = "\<lparr>tab = None\<rparr>" and w = example_browser]
    by simp
  from first second show ?thesis
    by (simp add: inherited_under_tag_def)
qed

text \<open>
  Claim C1 as it was stated asks for the response
  \<^verbatim>\<open>{ success: false, error: "Unknown message type" }\<close>. The table of the background script
  has no handler for \<^verbatim>\<open>EXTENSION_STATE_CHANGED\<close>, and the listener answers such a message with
  nothing.
\<close>

theorem unknown_message_type_counterexample:
  "background_handlers EXTENSION_STATE_CHANGED = None
   \<and> responses (fst (createMessageHandler inherited_under_tag background_handlers
        \<lparr>type = EXTENSION_STATE_CHANGED, payload = Enabled_request False\<rparr> \<lparr>tab = None\<rparr>
        example_browser))
     \<noteq> [\<lparr>success = False, data = None, error = Some ''Unknown message type''\<rparr>]"
  by (simp add: createMessageHandler_def property_read_def inherited_under_tag_def)

text \<open>
  The name of an inherited member is outside the theorem for C1: the member is found, called
  like a handler, and its result is answered. With an empty table, \<^verbatim>\<open>toString\<close> called this
  way returns the string \<^verbatim>\<open>"[object Undefined]"\<close>.
\<close>

lemma inherited_member_is_called:
  assumes "handlers (type m) = None" and "inherited (type m) = Some member"
    and "member (payload m) sender w = (Returns_value v, w')"
  shows "createMessageHandler inherited handlers m sender w =
     (\<lparr>exit = Returned True, responses = [\<lparr>success = True, data = Some v, error = None\<rparr>]\<rparr>, w')"
  using assms by (simp add: createMessageHandler_def property_read_def)

lemma toString_is_answered:
  "createMessageHandler
     (\<lambda>name. if name = ''toString''
        then Some (\<lambda>p sender w.
               (Returns_value (Json_data (JStr ''[object Undefined]'')), w))
        else None)
     (\<lambda>name. None)
     \<lparr>type = ''toString'', payload = Void\<rparr> \<lparr>tab = None\<rparr> example_browser
   = (\<lparr>exit = Returned True,
       responses = [\<lparr>success = True, data = Some (Json_data (JStr ''[object Undefined]'')),
                     error = None\<rparr>]\<rparr>,
      example_browser)"
  by (simp add: createMessageHandler_def property_read_def)

text \<open>
  Claim C2, as the code has it. Let the type of an inbound message have a handler
  registered (whatever the table inherits besides), and let
  the call of the handler return (a plain value or a promise) instead of throwing. Then the
  listener returns \<^verbatim>\<open>true\<close>, so the reply channel stays open, and
  \<^item> when the handler ends well with \<open>v\<close>, exactly one response is sent,
    \<^verbatim>\<open>{ success: true, data: v }\<close>;
  \<^item> when the handler's promise is rejected with an \<^verbatim>\<open>Error\<close> whose message is \<open>msg\<close>, exactly
    one response is sent, \<^verbatim>\<open>{ success: false, error: msg }\<close>;
  \<^item> when it is rejected with anything that is not an \<^verbatim>\<open>Error\<close>, exactly one response is
    sent, \<^verbatim>\<open>{ success: false, error: "Unknown error" }\<close>;
  \<^item> as long as the promise has not ended, nothing has been sent.
  In each case the browser is in the state the handler left it in. So a handler that has
  ended got exactly one response sent, and no handler gets more than one.
\<close>

theorem createMessageHandler_registered:
  assumes "handlers (type m) = Some h" and "h (payload m) sender w = (r, w')"
  shows "(r = Returns_value v \<or> r = Returns_promise (Fulfilled v) \<longrightarrow>
            createMessageHandler inherited handlers m sender w =
              (\<lparr>exit = Returned True,
                responses = [\<lparr>success = True, data = Some v, error = None\<rparr>]\<rparr>, w'))
       \<and> (r = Returns_promise (Rejected (Error_instance msg)) \<longrightarrow>
            createMessageHandler inherited handlers m sender w =
              (\<lparr>exit = Returned True,
                responses = [\<lparr>success = False, data = None, error = Some msg\<rparr>]\<rparr>, w'))
       \<and> (r = Returns_promise (Rejected (Other_thrown j)) \<longrightarrow>
            createMessageHandler inherited handlers m sender w =
              (\<lparr>exit = Returned True,
                responses = [\<lparr>success = False, data = None, error = Some ''Unknown error''\<rparr>]\<rparr>,
               w'))
       \<and> (r = Returns_promise Pending \<longrightarrow>
            createMessageHandler inherited handlers m sender w =
              (\<lparr>exit = Returned True, responses = []\<rparr>, w'))
       \<and> ((\<exists>x. r = Returns_value x \<or> r = Returns_promise (Fulfilled x))
            \<or> (\<exists>e. r = Returns_promise (Rejected e)) \<longrightarrow>
            length (responses (fst (createMessageHandler inherited handlers m sender w))) = 1)
       \<and> length (responses (fst (createMessageHandler inherited handlers m sender w))) \<le> 1"
proof -
  have run: "createMessageHandler inherited handlers m sender w =
      (case r of
         Throws e \<Rightarrow> (\<lparr>exit = Escaped e, responses = []\<rparr>, w')
       | Returns_value x \<Rightarrow> (\<lparr>exit = Returned True, responses = then_catch (Fulfilled x)\<rparr>, w')
       | Returns_promise q \<Rightarrow> (\<lparr>exit = Returned True, responses = then_catch q\<rparr>, w'))"
    using assms by (simp add: createMessageHandler_def property_read_def)
  have "length (responses (fst (createMessageHandler inherited handlers m sender w))) \<le> 1"
    by (cases r) (simp_all add: run then_catch_at_most_one)
  moreover have "(\<exists>x. r = Returns_value x \<or> r = Returns_promise (Fulfilled x))
            \<or> (\<exists>e. r = Returns_promise (Rejected e)) \<longrightarrow>
            length (responses (fst (createMessageHandler inherited handlers m sender w))) = 1"
    by (auto simp add: run)
  ultimately show ?thesis
    by (simp add: run)
qed

theorem createMessageHandler_registered_witness:
  "createMessageHandler inherited_under_tag background_handlers \<lparr>type = GET_SETTINGS, payload = Void\<rparr> \<lparr>tab = None\<rparr>
     example_browser
   = (\<lparr>exit = Returned True,
       responses =
         [\<lparr>success = True,
           data = Some (Settings_data
                    \<lparr>enabled = Some True, theme = Some Light, notifications = Some False\<rparr>),
           error = None\<rparr>]\<rparr>,
      example_browser)
   \<and> createMessageHandler inherited_under_tag
       (\<lambda>k. if k = UPDATE_SETTINGS
            then Some (\<lambda>p sender w.
                   (Returns_promise (Rejected (Error_instance ''QUOTA_BYTES quota exceeded'')) ::
                      Response call_result, w))
            else None)
       \<lparr>type = UPDATE_SETTINGS, payload = Void\<rparr> \<lparr>tab = None\<rparr> example_browser
     = (\<lparr>exit = Returned True,
         responses =
           [\<lparr>success = False, data = None, error = Some ''QUOTA_BYTES quota exceeded''\<rparr>]\<rparr>,
        example_browser)"
proof -
  have cur: "currentSettings example_browser =
      \<lparr>enabled = Some True, theme = Some Light, notifications = Some False\<rparr>"
    by (simp add: currentSettings_def getStorage_settings_def example_browser_def)
  have table: "background_handlers (type \<lparr>type = GET_SETTINGS, payload = Void\<rparr>) =
      Some (\<lambda>p sender w. GET_SETTINGS_handler w)"
    by simp
  have call: "(\<lambda>p sender w. GET_SETTINGS_handler w)
        (payload \<lparr>type = GET_SETTINGS, payload = Void\<rparr>) \<lparr>tab = None\<rparr> example_browser =
      (Returns_promise (Fulfilled (Settings_data
         \<lparr>enabled = Some True, theme = Some Light, notifications = Some False\<rparr>)), example_browser)"
    by (simp add: GET_SETTINGS_handler_def cur)
  have first: "createMessageHandler inherited_under_tag background_handlers \<lparr>type = GET_SETTINGS, payload = Void\<rparr>
      \<lparr>tab = None\<rparr> example_browser
    = (\<lparr>exit = Returned True,
        responses =
          [\<lparr>success = True,
            data = Some (Settings_data
                     \<lparr>enabled = Some True, theme = Some Light, notifications = Some False\<rparr>),
            error = None\<rparr>]\<rparr>,
       example_browser)"
    using createMessageHandler_registered
      [where handlers = background_handlers and inherited = inherited_under_tag
         and m = "\<lparr>type = GET_SETTINGS, payload = Void\<rparr>"
         and h = "\<lambda>p sender w. GET_SETTINGS_handler w"
         and sender = "\<lparr>tab = None\<rparr>" and w = example_browser and w' = example_browser
         and r = "Returns_promise (Fulfilled (Settings_data
                    \<lparr>enabled = Some True, theme = Some Light, notifications = Some False\<rparr>))"
         and v = "Settings_data
                    \<lparr>enabled = Some True, theme = Some Light, notifications = Some False\<rparr>",
       OF table call]
    by simp
  have second: "createMessageHandler inherited_under_tag
       (\<lambda>k. if k = UPDATE_SETTINGS
            then Some (\<lambda>p sender w.
                   (Returns_promise (Rejected (Error_instance ''QUOTA_BYTES quota exceeded'')) ::
                      Response call_result, w))
            else None)
       \<lparr>type = UPDATE_SETTINGS, payload = Void\<rparr> \<lparr>tab = None\<rparr> example_browser
     = (\<lparr>exit = Returned True,
         responses =
           [\<lparr>success = False, data = None, error = Some ''QUOTA_BYTES quota exceeded''\<rparr>]\<rparr>,
        example_browser)"
    using createMessageHandler_registered
      [where inherited = inherited_under_tag
         and handlers = "\<lambda>k. if k = UPDATE_SETTINGS
            then Some (\<lambda>p sender w.
                   (Returns_promise (Rejected (Error_instance ''QUOTA_BYTES quota exceeded'')) ::
                      Response call_result, w))
            else None"
         and m = "\<lparr>type = UPDATE_SETTINGS, payload = Void\<rparr>"
         and h = "\<lambda>p sender w.
                   (Returns_promise (Rejected (Error_instance ''QUOTA_BYTES quota exceeded'')), w)"
         and sender = "\<lparr>tab = None\<rparr>" and w = example_browser and w' = example_browser
         and r = "Returns_promise (Rejected (Error_instance ''QUOTA_BYTES quota exceeded''))"
         and msg = "''QUOTA_BYTES quota exceeded''"]
    by simp
  from first second show ?thesis by simp
qed

text \<open>
  Claim C2 as it was stated makes the response carry the failure's own message whenever
  the handler fails. A handler that rejects with \<^verbatim>\<open>{ message: "QUOTA_BYTES quota exceeded" }\<close>,
  an object of the shape of \<^verbatim>\<open>chrome.runtime.lastError\<close> and no \<^verbatim>\<open>Error\<close>, gets the response
  \<^verbatim>\<open>{ success: false, error: "Unknown error" }\<close>.
\<close>

theorem non_Error_rejection_counterexample:
  "responses (fst (createMessageHandler inherited_under_tag
      (\<lambda>k. if k = UPDATE_SETTINGS
           then Some (\<lambda>p sender w.
                  (Returns_promise (Rejected (Other_thrown
                     (JObj [(''message'', JStr ''QUOTA_BYTES quota exceeded'')]))) ::
                     Response call_result, w))
           else None)
      \<lparr>type = UPDATE_SETTINGS, payload = Settings_request \<lparr>enabled = None, theme = Some Dark,
         notifications = None\<rparr>\<rparr> \<lparr>tab = None\<rparr> example_browser))
   = [\<lparr>success = False, data = None, error = Some ''Unknown error''\<rparr>]
   \<and> ''Unknown error'' \<noteq> ''QUOTA_BYTES quota exceeded''"
  by (simp add: createMessageHandler_def property_read_def)

text \<open>
  A handler that is not \<^verbatim>\<open>async\<close> and throws is outside the theorem for C2: its exception
  is raised inside the argument of \<^verbatim>\<open>Promise.resolve\<close>, before there is a promise that
  \<^verbatim>\<open>catch\<close> could watch. It leaves the listener, and no response is sent.
\<close>

lemma handler_throws_before_returning:
  assumes "handlers (type m) = Some h" and "h (payload m) sender w = (Throws e, w')"
  shows "createMessageHandler inherited handlers m sender w = (\<lparr>exit = Escaped e, responses = []\<rparr>, w')"
  using assms by (simp add: createMessageHandler_def property_read_def)

section \<open>The settings store and its handlers\<close>

text \<open>
  Claim C3, as the code has it. After \<^verbatim>\<open>clearStorage()\<close>, \<^verbatim>\<open>getAllStorage()\<close> returns the empty
  mapping and \<^verbatim>\<open>getStorage("settings")\<close> finds nothing. A \<^verbatim>\<open>GET_SETTINGS\<close> request that follows
  is nevertheless answered with a settings record, the built-in defaults, in a successful
  response; answering does not write to the store.
\<close>

theorem clearStorage_then_GET_SETTINGS:
  "getAllStorage (clearStorage w) = \<lparr>settings = None, userData = None\<rparr>
   \<and> getStorage_settings (clearStorage w) = None
   \<and> background_onMessage \<lparr>type = GET_SETTINGS, payload = p\<rparr> sender (clearStorage w) =
       (\<lparr>exit = Returned True,
         responses =
           [\<lparr>success = True,
             data = Some (Settings_data
                      \<lparr>enabled = Some True, theme = Some System, notifications = Some True\<rparr>),
             error = None\<rparr>]\<rparr>,
        clearStorage w)"
  by (simp add: background_GET_SETTINGS)
    (simp add: getAllStorage_def clearStorage_def getStorage_settings_def currentSettings_def
      defaultSettings_def)

text \<open>
  Claim C3 as it was stated has \<^verbatim>\<open>GET_SETTINGS\<close> return "absent" after a clear. In the example
  browser, cleared, the response carries a settings record.
\<close>

theorem GET_SETTINGS_after_clear_counterexample:
  "getStorage_settings (clearStorage example_browser) = None
   \<and> map data (responses (fst (background_onMessage \<lparr>type = GET_SETTINGS, payload = Void\<rparr>
        \<lparr>tab = None\<rparr> (clearStorage example_browser))))
     = [Some (Settings_data \<lparr>enabled = Some True, theme = Some System, notifications = Some True\<rparr>)]"
  by (simp add: background_GET_SETTINGS)
    (simp add: clearStorage_def getStorage_settings_def currentSettings_def defaultSettings_def)

text \<open>
  Claim C4. Handling \<^verbatim>\<open>UPDATE_SETTINGS\<close> with a partial settings object \<open>p\<close> answers
  \<^verbatim>\<open>{ success: true }\<close> and stores the current settings (the stored record, or the defaults
  when none is stored) with the properties of \<open>p\<close> laid over them: a property that \<open>p\<close> has
  takes the value from \<open>p\<close>, a property that \<open>p\<close> lacks keeps its current value. Nothing else
  in the store changes, and a \<^verbatim>\<open>GET_SETTINGS\<close> request that follows returns the merged record.
\<close>

theorem UPDATE_SETTINGS_shallow_merge:
  assumes "background_onMessage \<lparr>type = UPDATE_SETTINGS, payload = Settings_request p\<rparr> sender w
             = (run, w')"
  shows "responses run = [\<lparr>success = True, data = Some (Success_flag True), error = None\<rparr>]
       \<and> settings (storage w') = Some (spread (currentSettings w) p)
       \<and> userData (storage w') = userData (storage w)
       \<and> background_onMessage \<lparr>type = GET_SETTINGS, payload = q\<rparr> sender' w' =
           (\<lparr>exit = Returned True,
             responses = [\<lparr>success = True, data = Some (Settings_data (spread (currentSettings w) p)),
                           error = None\<rparr>]\<rparr>, w')
       \<and> currentSettings w = (case settings (storage w) of Some s \<Rightarrow> s | None \<Rightarrow> defaultSettings)
       \<and> enabled (spread (currentSettings w) p) =
           (case enabled p of Some v \<Rightarrow> Some v | None \<Rightarrow> enabled (currentSettings w))
       \<and> theme (spread (currentSettings w) p) =
           (case theme p of Some v \<Rightarrow> Some v | None \<Rightarrow> theme (currentSettings w))
       \<and> notifications (spread (currentSettings w) p) =
           (case notifications p of Some v \<Rightarrow> Some v | None \<Rightarrow> notifications (currentSettings w))"
proof -
  from assms have run: "run = \<lparr>exit = Returned True,
       responses = [\<lparr>success = True, data = Some (Success_flag True), error = None\<rparr>]\<rparr>"
    and w': "w' = setStorage_settings (spread (currentSettings w) p) w"
    by (simp_all add: background_UPDATE_SETTINGS)
  have "currentSettings w = (case settings (storage w) of Some s \<Rightarrow> s | None \<Rightarrow> defaultSettings)"
    by (simp add: currentSettings_def getStorage_settings_def)
  moreover have "enabled (spread (currentSettings w) p) =
           (case enabled p of Some v \<Rightarrow> Some v | None \<Rightarrow> enabled (currentSettings w))"
    and "theme (spread (currentSettings w) p) =
           (case theme p of Some v \<Rightarrow> Some v | None \<Rightarrow> theme (currentSettings w))"
    and "notifications (spread (currentSettings w) p) =
           (case notifications p of Some v \<Rightarrow> Some v | None \<Rightarrow> notifications (currentSettings w))"
    by (simp_all add: spread_def)
  ultimately show ?thesis
    by (simp add: run w' storage_setStorage_settings background_GET_SETTINGS
        currentSettings_setStorage_settings)
qed

text \<open>The example of the claim: \<^verbatim>\<open>UPDATE_SETTINGS({ theme: "dark" })\<close>, then \<^verbatim>\<open>GET_SETTINGS\<close>.\<close>

theorem UPDATE_SETTINGS_shallow_merge_witness:
  "background_onMessage
     \<lparr>type = UPDATE_SETTINGS,
      payload = Settings_request \<lparr>enabled = None, theme = Some Dark, notifications = None\<rparr>\<rparr>
     \<lparr>tab = None\<rparr> example_browser
   = (\<lparr>exit = Returned True,
       responses = [\<lparr>success = True, data = Some (Success_flag True), error = None\<rparr>]\<rparr>,
      setStorage_settings \<lparr>enabled = Some True, theme = Some Dark, notifications = Some False\<rparr>
        example_browser)
   \<and> background_onMessage \<lparr>type = GET_SETTINGS, payload = Void\<rparr> \<lparr>tab = None\<rparr>
       (setStorage_settings \<lparr>enabled = Some True, theme = Some Dark, notifications = Some False\<rparr>
          example_browser)
     = (\<lparr>exit = Returned True,
         responses = [\<lparr>success = True,
                       data = Some (Settings_data
                                \<lparr>enabled = Some True, theme = Some Dark, notifications = Some False\<rparr>),
                       error = None\<rparr>]\<rparr>,
        setStorage_settings \<lparr>enabled = Some True, theme = Some Dark, notifications = Some False\<rparr>
          example_browser)"
proof -
  have cur: "currentSettings example_browser =
      \<lparr>enabled = Some True, theme = Some Light, notifications = Some False\<rparr>"
    by (simp add: currentSettings_def getStorage_settings_def example_browser_def)
  have h: "background_onMessage
     \<lparr>type = UPDATE_SETTINGS,
      payload = Settings_request \<lparr>enabled = None, theme = Some Dark, notifications = None\<rparr>\<rparr>
     \<lparr>tab = None\<rparr> example_browser
   = (\<lparr>exit = Returned True,
       responses = [\<lparr>success = True, data = Some (Success_flag True), error = None\<rparr>]\<rparr>,
      setStorage_settings \<lparr>enabled = Some True, theme = Some Dark, notifications = Some False\<rparr>
        example_browser)"
    by (simp add: background_UPDATE_SETTINGS cur spread_def)
  show ?thesis
    using UPDATE_SETTINGS_shallow_merge [OF h, of Void "\<lparr>tab = None\<rparr>"] h
    by (simp add: cur spread_def)
qed

text \<open>
  Claim C5. \<^verbatim>\<open>initializeStorage()\<close> is idempotent: run a second time, at whatever time \<open>t\<close> the
  clock then shows, it leaves the store as the first run left it. For each of the two keys
  it writes the built-in default when the key is absent and leaves a value that is there
  untouched.
\<close>

theorem initializeStorage_idempotent:
  "initializeStorage (initializeStorage w) = initializeStorage w
   \<and> storage (initializeStorage ((initializeStorage w)\<lparr>clock := t\<rparr>)) = storage (initializeStorage w)
   \<and> settings (storage (initializeStorage w)) =
       (case settings (storage w) of
          None \<Rightarrow> Some \<lparr>enabled = Some True, theme = Some System, notifications = Some True\<rparr>
        | Some s \<Rightarrow> Some s)
   \<and> userData (storage (initializeStorage w)) =
       (case userData (storage w) of
          None \<Rightarrow> Some \<lparr>lastVisit = clock w, visitCount = 0\<rparr> | Some u \<Rightarrow> Some u)"
  by (simp add: initializeStorage_def getStorage_settings_def getStorage_userData_def
      setStorage_settings_def setStorage_userData_def defaultSettings_def Let_def
      split: option.splits)

section \<open>The fan-out to the tabs\<close>




section \<open>The shape of the stored settings\<close>

text \<open>Step by step: a record that is in order stays in order under each writer.\<close>

lemma ok_setStorage_settings: "is_Settings v \<Longrightarrow> settings_record_ok (setStorage_settings v w)"
  by (simp add: settings_record_ok_def setStorage_settings_def)

lemma ok_initializeStorage: "settings_record_ok w \<Longrightarrow> settings_record_ok (initializeStorage w)"
  by (auto simp add: settings_record_ok_def initializeStorage_def getStorage_settings_def
      getStorage_userData_def setStorage_settings_def setStorage_userData_def Let_def
      is_Settings_default split: option.splits)

lemma ok_UPDATE_SETTINGS_handler:
  "settings_record_ok w \<Longrightarrow> settings_record_ok (snd (UPDATE_SETTINGS_handler p w))"
  by (simp add: UPDATE_SETTINGS_handler_def Let_def ok_setStorage_settings is_Settings_spread
      is_Settings_current)

lemma ok_TOGGLE_EXTENSION_handler:
  assumes "settings_record_ok w"
  shows "settings_record_ok (snd (TOGGLE_EXTENSION_handler (Enabled_request b) w))"
proof -
  have "is_Settings ((currentSettings w)\<lparr>enabled := Some b\<rparr>)"
    using is_Settings_current [OF assms] by (simp add: is_Settings_def)
  then have "settings_record_ok (setStorage_settings ((currentSettings w)\<lparr>enabled := Some b\<rparr>) w)"
    by (rule ok_setStorage_settings)
  then show ?thesis
    by (simp add: TOGGLE_EXTENSION_handler_def Let_def settings_record_ok_def storage_notify_tabs)
qed

lemma ok_background_onMessage:
  assumes "settings_record_ok w" and "request_matches (type m) (payload m)"
  shows "settings_record_ok (snd (background_onMessage m sender w))"
proof (cases "type m")
  case GET_TAB_INFO
  with assms show ?thesis
    by (simp add: background_onMessage_def createMessageHandler_def property_read_def
        GET_TAB_INFO_handler_def)
next
  case TOGGLE_EXTENSION
  with assms(2) obtain b where "payload m = Enabled_request b"
    by (cases "payload m") (simp_all add: request_matches_def)
  with TOGGLE_EXTENSION have "m = \<lparr>type = TOGGLE_EXTENSION, payload = Enabled_request b\<rparr>"
    by (cases m) simp
  with ok_TOGGLE_EXTENSION_handler [OF assms(1), of b] show ?thesis
    by (simp add: background_TOGGLE_EXTENSION TOGGLE_EXTENSION_handler_def Let_def
        settings_record_ok_def storage_notify_tabs)
next
  case GET_SETTINGS
  with assms show ?thesis
    by (simp add: background_onMessage_def createMessageHandler_def property_read_def
        GET_SETTINGS_handler_def)
next
  case UPDATE_SETTINGS
  with assms(2) obtain p where "payload m = Settings_request p"
    by (cases "payload m") (simp_all add: request_matches_def)
  with UPDATE_SETTINGS have "m = \<lparr>type = UPDATE_SETTINGS, payload = Settings_request p\<rparr>"
    by (cases m) simp
  with ok_UPDATE_SETTINGS_handler [OF assms(1), of "Settings_request p"] show ?thesis
    by (simp add: background_UPDATE_SETTINGS UPDATE_SETTINGS_handler_def Let_def)
next
  case CONTENT_ACTION
  with assms(2) obtain a d where "payload m = Action_request a d"
    by (cases "payload m") (simp_all add: request_matches_def)
  with CONTENT_ACTION assms(1) show ?thesis
    by (simp add: background_onMessage_def createMessageHandler_def property_read_def
        CONTENT_ACTION_handler_def)
next
  case EXTENSION_STATE_CHANGED
  with assms show ?thesis
    by (simp add: background_onMessage_def createMessageHandler_def property_read_def
        inherited_under_tag_def)
qed

lemma ok_perform:
  assumes "settings_record_ok w" and "well_typed op"
  shows "settings_record_ok (perform op w)"
proof (cases op)
  case (Message_arrives m sender)
  with assms show ?thesis by (simp add: ok_background_onMessage)
next
  case (Installed reason)
  with assms show ?thesis by (cases reason) (simp_all add: ok_initializeStorage)
next
  case Browser_starts
  with assms show ?thesis by (simp add: onStartup_def ok_initializeStorage)
next
  case Tab_updated
  with assms show ?thesis by simp
next
  case Icon_clicked
  with assms show ?thesis by simp
next
  case Context_menu_clicked
  with assms show ?thesis by simp
next
  case (Call_setStorage_settings v)
  with assms show ?thesis by (simp add: ok_setStorage_settings)
next
  case (Call_setStorage_userData v)
  with assms show ?thesis by (simp add: settings_record_ok_def setStorage_userData_def)
next
  case (Call_removeStorage k)
  with assms show ?thesis by (cases k) (simp_all add: settings_record_ok_def)
next
  case Call_clearStorage
  then show ?thesis by (simp add: settings_record_ok_def clearStorage_def)
qed

text \<open>
  Claim C7. When the persisted settings record is absent or complete, it is absent or
  complete after any sequence of operations that the TypeScript compiler lets through:
  messages to the background listener, life cycle events, the listeners that only log, and
  direct calls of the store's writing functions. No operation persists a partial settings
  record.
\<close>

theorem settings_record_never_partial:
  "settings_record_ok w \<Longrightarrow> list_all well_typed ops \<Longrightarrow> settings_record_ok (fold perform ops w)"
proof (induction ops arbitrary: w)
  case Nil
  then show ?case by simp
next
  case (Cons op ops)
  from Cons.prems have "settings_record_ok (perform op w)" by (simp add: ok_perform)
  moreover from Cons.prems have "list_all well_typed ops" by simp
  ultimately show ?case using Cons.IH by simp
qed

text \<open>From the freshly loaded extension: install, update the theme, switch the extension off.\<close>

theorem settings_record_never_partial_witness:
  "settings_record_ok fresh_browser
   \<and> list_all well_typed
       [Installed INSTALL,
        Message_arrives
          \<lparr>type = UPDATE_SETTINGS,
           payload = Settings_request \<lparr>enabled = None, theme = Some Dark, notifications = None\<rparr>\<rparr>
          \<lparr>tab = None\<rparr>,
        Message_arrives \<lparr>type = TOGGLE_EXTENSION, payload = Enabled_request False\<rparr> \<lparr>tab = None\<rparr>]
   \<and> settings_record_ok (fold perform
       [Installed INSTALL,
        Message_arrives
          \<lparr>type = UPDATE_SETTINGS,
           payload = Settings_request \<lparr>enabled = None, theme = Some Dark, notifications = None\<rparr>\<rparr>
          \<lparr>tab = None\<rparr>,
        Message_arrives \<lparr>type = TOGGLE_EXTENSION, payload = Enabled_request False\<rparr> \<lparr>tab = None\<rparr>]
       fresh_browser)
   \<and> settings (storage (fold perform
       [Installed INSTALL,
        Message_arrives
          \<lparr>type = UPDATE_SETTINGS,
           payload = Settings_request \<lparr>enabled = None, theme = Some Dark, notifications = None\<rparr>\<rparr>
          \<lparr>tab = None\<rparr>,
        Message_arrives \<lparr>type = TOGGLE_EXTENSION, payload = Enabled_request False\<rparr> \<lparr>tab = None\<rparr>]
       fresh_browser))
     = Some \<lparr>enabled = Some False, theme = Some Dark, notifications = Some True\<rparr>"
proof -
  have start: "settings_record_ok fresh_browser"
    by (simp add: settings_record_ok_def fresh_browser_def)
  have typed: "list_all well_typed
       [Installed INSTALL,
        Message_arrives
          \<lparr>type = UPDATE_SETTINGS,
           payload = Settings_request \<lparr>enabled = None, theme = Some Dark, notifications = None\<rparr>\<rparr>
          \<lparr>tab = None\<rparr>,
        Message_arrives \<lparr>type = TOGGLE_EXTENSION, payload = Enabled_request False\<rparr> \<lparr>tab = None\<rparr>]"
    by (simp add: request_matches_def)
  have installed: "settings (storage (initializeStorage fresh_browser)) = Some defaultSettings"
    by (simp add: initializeStorage_def getStorage_settings_def getStorage_userData_def
        setStorage_settings_def setStorage_userData_def fresh_browser_def Let_def)
  have final: "settings (storage (fold perform
       [Installed INSTALL,
        Message_arrives
          \<lparr>type = UPDATE_SETTINGS,
           payload = Settings_request \<lparr>enabled = None, theme = Some Dark, notifications = None\<rparr>\<rparr>
          \<lparr>tab = None\<rparr>,
        Message_arrives \<lparr>type = TOGGLE_EXTENSION, payload = Enabled_request False\<rparr> \<lparr>tab = None\<rparr>]
       fresh_browser))
     = Some \<lparr>enabled = Some False, theme = Some Dark, notifications = Some True\<rparr>"
    by (simp add: background_UPDATE_SETTINGS background_TOGGLE_EXTENSION storage_notify_tabs
        storage_setStorage_settings currentSettings_setStorage_settings)
      (simp add: currentSettings_def getStorage_settings_def installed spread_def
        defaultSettings_def)
  from start typed settings_record_never_partial [OF start typed] final show ?thesis
    by (intro conjI)
qed

section \<open>The adapters for tabs\<close>

text \<open>
  Away from the \<^verbatim>\<open>id\<close> 0 \<^verbatim>\<open>sendToActiveTab\<close> does what its comment says. When the query for the
  active tab of the current window returns no tab, or its first tab has no \<^verbatim>\<open>id\<close>, the
  answer is \<^verbatim>\<open>{ success: false, error: "No active tab found" }\<close> and the browser is left as it
  was: nothing is transmitted. When the first tab has an \<^verbatim>\<open>id\<close> other than 0,
  \<^verbatim>\<open>sendToActiveTab\<close> does what \<^verbatim>\<open>sendToTab\<close> does with that \<^verbatim>\<open>id\<close>.
\<close>

lemma sendToActiveTab_away_from_zero:
  "(active_tabs w = [] \<longrightarrow>
      sendToActiveTab t p w =
        (Fulfilled \<lparr>success = False, data = None, error = Some ''No active tab found''\<rparr>, w))
   \<and> (active_tabs w = first # rest \<and> tab_id first = None \<longrightarrow>
      sendToActiveTab t p w =
        (Fulfilled \<lparr>success = False, data = None, error = Some ''No active tab found''\<rparr>, w))
   \<and> (active_tabs w = first # rest \<and> tab_id first = Some i \<and> i \<noteq> 0 \<longrightarrow>
      sendToActiveTab t p w = sendToTab i t p w)"
  by (auto simp add: sendToActiveTab_def)

text \<open>
  Claim C8 says that \<^verbatim>\<open>sendToActiveTab\<close> answers \<^verbatim>\<open>"No active tab found"\<close> when there is no
  active tab or the tab has no \<^verbatim>\<open>id\<close>, and hands over to \<^verbatim>\<open>sendToTab\<close> with the tab's \<^verbatim>\<open>id\<close>
  otherwise. The code departs from it for an active tab whose \<^verbatim>\<open>id\<close> is 0: the test
  \<^verbatim>\<open>!tab?.id\<close> takes the number 0 for a missing \<^verbatim>\<open>id\<close>. The tab is found and has an \<^verbatim>\<open>id\<close>, yet
  the answer is \<^verbatim>\<open>"No active tab found"\<close> and nothing is transmitted, where \<^verbatim>\<open>sendToTab\<close> with
  the \<^verbatim>\<open>id\<close> 0 would have transmitted the message.
\<close>

theorem sendToActiveTab_tab_id_zero:
  "active_tabs (example_browser\<lparr>active_tabs := [\<lparr>tab_id = Some 0, url = None, title = None\<rparr>]\<rparr>)
     = [\<lparr>tab_id = Some 0, url = None, title = None\<rparr>]
   \<and> sendToActiveTab GET_TAB_INFO Void
       (example_browser\<lparr>active_tabs := [\<lparr>tab_id = Some 0, url = None, title = None\<rparr>]\<rparr>)
     = (Fulfilled \<lparr>success = False, data = None, error = Some ''No active tab found''\<rparr>,
        example_browser\<lparr>active_tabs := [\<lparr>tab_id = Some 0, url = None, title = None\<rparr>]\<rparr>)
   \<and> outbox (snd (sendToTab 0 GET_TAB_INFO Void
       (example_browser\<lparr>active_tabs := [\<lparr>tab_id = Some 0, url = None, title = None\<rparr>]\<rparr>)))
     = [(0, \<lparr>type = GET_TAB_INFO, payload = Void\<rparr>)]
   \<and> sendToActiveTab GET_TAB_INFO Void
       (example_browser\<lparr>active_tabs := [\<lparr>tab_id = Some 0, url = None, title = None\<rparr>]\<rparr>)
     \<noteq> sendToTab 0 GET_TAB_INFO Void
       (example_browser\<lparr>active_tabs := [\<lparr>tab_id = Some 0, url = None, title = None\<rparr>]\<rparr>)"
  by (simp add: sendToActiveTab_def sendToTab_def chrome_tabs_sendMessage_def example_browser_def
      no_listener_def)

text \<open>
  Claim C9. \<^verbatim>\<open>sendToTab\<close> never rejects: its promise is always fulfilled with a response. When
  the transport to the tab fails with an \<^verbatim>\<open>Error\<close>, the response is
  \<^verbatim>\<open>{ success: false, error: <the error's message> }\<close>; when it fails with anything else, the
  response is \<^verbatim>\<open>{ success: false, error: "Unknown error" }\<close>. One transmission was attempted.
\<close>

theorem sendToTab_catches_transport_failure:
  "(\<exists>response. fst (sendToTab tabId t p w) = Fulfilled response)
   \<and> (receiver w tabId \<lparr>type = t, payload = p\<rparr> = Inl (Error_instance msg) \<longrightarrow>
        sendToTab tabId t p w =
          (Fulfilled \<lparr>success = False, data = None, error = Some msg\<rparr>,
           w\<lparr>outbox := outbox w @ [(tabId, \<lparr>type = t, payload = p\<rparr>)]\<rparr>))
   \<and> (receiver w tabId \<lparr>type = t, payload = p\<rparr> = Inl (Other_thrown j) \<longrightarrow>
        sendToTab tabId t p w =
          (Fulfilled \<lparr>success = False, data = None, error = Some ''Unknown error''\<rparr>,
           w\<lparr>outbox := outbox w @ [(tabId, \<lparr>type = t, payload = p\<rparr>)]\<rparr>))"
  by (cases "receiver w tabId \<lparr>type = t, payload = p\<rparr>")
    (simp_all add: sendToTab_def chrome_tabs_sendMessage_def)

theorem sendToTab_catches_transport_failure_witness:
  "receiver example_browser 8 \<lparr>type = CONTENT_ACTION, payload = Action_request ''highlight'' None\<rparr>
     = Inl (Error_instance ''Could not establish connection. Receiving end does not exist.'')
   \<and> fst (sendToTab 8 CONTENT_ACTION (Action_request ''highlight'' None) example_browser) =
       Fulfilled \<lparr>success = False, data = None,
                  error = Some ''Could not establish connection. Receiving end does not exist.''\<rparr>"
proof -
  have h: "receiver example_browser 8
       \<lparr>type = CONTENT_ACTION, payload = Action_request ''highlight'' None\<rparr>
     = Inl (Error_instance ''Could not establish connection. Receiving end does not exist.'')"
    by (simp add: example_browser_def no_listener_def)
  show ?thesis
    using sendToTab_catches_transport_failure
      [where tabId = 8 and t = CONTENT_ACTION and p = "Action_request ''highlight'' None"
         and w = example_browser
         and msg = "''Could not establish connection. Receiving end does not exist.''"] h
    by simp
qed

section \<open>What a caller of \<^verbatim>\<open>GET_SETTINGS\<close> sees\<close>

text \<open>
  Claim C10. Whatever is stored, the \<^verbatim>\<open>GET_SETTINGS\<close> handler answers with a successful
  response that carries a settings record: the stored record when there is one, and
  otherwise the built-in defaults \<^verbatim>\<open>{ enabled: true, theme: "system", notifications: true }\<close>.
  The response never comes without a record, and the record is complete whenever the stored
  one is. The store is not written.
\<close>

theorem GET_SETTINGS_never_absent:
  "background_onMessage \<lparr>type = GET_SETTINGS, payload = p\<rparr> sender w =
     (\<lparr>exit = Returned True,
       responses =
         [\<lparr>success = True,
           data = Some (Settings_data
                    (case settings (storage w) of Some s \<Rightarrow> s | None \<Rightarrow> defaultSettings)),
           error = None\<rparr>]\<rparr>, w)
   \<and> defaultSettings = \<lparr>enabled = Some True, theme = Some System, notifications = Some True\<rparr>
   \<and> (settings_record_ok w \<longrightarrow>
        is_Settings (case settings (storage w) of Some s \<Rightarrow> s | None \<Rightarrow> defaultSettings))"
proof -
  have "settings_record_ok w \<longrightarrow>
        is_Settings (case settings (storage w) of Some s \<Rightarrow> s | None \<Rightarrow> defaultSettings)"
    by (simp add: settings_record_ok_def is_Settings_default split: option.splits)
  then show ?thesis
    by (simp add: background_GET_SETTINGS currentSettings_def getStorage_settings_def
        defaultSettings_def)
qed

text \<open>Before anything was stored, and with a record stored.\<close>

theorem GET_SETTINGS_never_absent_witness:
  "settings_record_ok fresh_browser
   \<and> map data (responses (fst (background_onMessage \<lparr>type = GET_SETTINGS, payload = Void\<rparr>
        \<lparr>tab = None\<rparr> fresh_browser)))
     = [Some (Settings_data \<lparr>enabled = Some True, theme = Some System, notifications = Some True\<rparr>)]
   \<and> is_Settings \<lparr>enabled = Some True, theme = Some System, notifications = Some True\<rparr>
   \<and> settings_record_ok example_browser
   \<and> map data (responses (fst (background_onMessage \<lparr>type = GET_SETTINGS, payload = Void\<rparr>
        \<lparr>tab = None\<rparr> example_browser)))
     = [Some (Settings_data \<lparr>enabled = Some True, theme = Some Light, notifications = Some False\<rparr>)]
   \<and> is_Settings \<lparr>enabled = Some True, theme = Some Light, notifications = Some False\<rparr>"
proof -
  have fresh: "settings_record_ok fresh_browser" "settings (storage fresh_browser) = None"
    by (simp_all add: settings_record_ok_def fresh_browser_def)
  have example: "settings_record_ok example_browser"
    "settings (storage example_browser) =
       Some \<lparr>enabled = Some True, theme = Some Light, notifications = Some False\<rparr>"
    by (simp_all add: settings_record_ok_def example_browser_def is_Settings_def)
  show ?thesis
    using GET_SETTINGS_never_absent [of Void "\<lparr>tab = None\<rparr>" fresh_browser]
      GET_SETTINGS_never_absent [of Void "\<lparr>tab = None\<rparr>" example_browser] fresh example
    by simp
qed

end
